theory Spec2Isabelle
  imports
    Complex_Main
    "HOL-Library.Char_ord"
    "HOL-Library.List_Lexorder"
    "HOL-Library.Product_Lexorder"
    "HOL-Library.Option_ord"
    "HOL-Library.Multiset"
begin

section \<open>Data model\<close>

text \<open>
  The program is \<^verbatim>\<open>co2_emissions_dashboard.py\<close>: a pandas pipeline of the class
  \<^verbatim>\<open>CO2EmissionsAnalyzer\<close>. Numbers are modelled as reals (exact arithmetic in place
  of float64), years as integers, labels as strings.

  A \<open>cell\<close> is one field of the \<^verbatim>\<open>co2\<close> column as \<^verbatim>\<open>pd.read_csv\<close> delivers it:
  \<open>Num x\<close> is a field that reads as the number \<open>x\<close>, \<open>Str s\<close> a field that does not
  read as a number, \<open>NaN\<close> an empty field. \<^verbatim>\<open>read_csv\<close> gives the column a numeric
  dtype exactly when no field is a \<open>Str\<close>; otherwise the column has dtype object and
  every non-empty field of it is a Python string.
\<close>

datatype cell = Num real | Str string | NaN

text \<open>
  A row carries the value of each canonical column; a missing value (pandas NaN/None) is
  \<open>None\<close>. The columns \<^verbatim>\<open>country\<close>, \<^verbatim>\<open>year\<close>, \<^verbatim>\<open>co2_per_capita\<close> and
  \<^verbatim>\<open>country_code\<close> are taken to have parsed to their canonical dtypes. A frame is the
  list of its column labels and the list of its rows; a row stores the \<^verbatim>\<open>co2\<close> /
  \<^verbatim>\<open>iso_code\<close> values under the canonical field the renaming gives them.
\<close>

record row =
  country :: "string option"
  year :: "int option"
  co2_emissions :: cell
  co2_per_capita :: "real option"
  country_code :: "string option"
  source :: "string option"
  co2_ma_5yr :: "real option"

record frame =
  columns :: "string list"
  rows :: "row list"

datatype error =
  FileNotFoundError string
  | KeyError string
  | TypeError
  | ValueError
  | AttributeError
  | OSError string

section \<open>Schema normalizer: \<^verbatim>\<open>_standardize_format\<close>\<close>

definition column_map :: "(string \<times> string) list" where
  "column_map =
     [(''country'', ''country''),
      (''year'', ''year''),
      (''co2'', ''co2_emissions''),
      (''co2_per_capita'', ''co2_per_capita''),
      (''iso_code'', ''country_code'')]"

text \<open>\<^verbatim>\<open>df.rename(columns={k:v for k,v in column_map.items() if k in df.columns})\<close>\<close>

definition rename :: "string list \<Rightarrow> string list" where
  "rename cols = map (\<lambda>c. case map_of column_map c of Some v \<Rightarrow> v | None \<Rightarrow> c) cols"

definition is_Str :: "cell \<Rightarrow> bool" where
  "is_Str c = (case c of Str _ \<Rightarrow> True | _ \<Rightarrow> False)"

definition nums :: "cell list \<Rightarrow> real list" where
  "nums cs = concat (map (\<lambda>c. case c of Num x \<Rightarrow> [x] | _ \<Rightarrow> []) cs)"

text \<open>
  \<^verbatim>\<open>df['co2_emissions'].max() < bound\<close>. On a numeric column \<^verbatim>\<open>max()\<close> skips NaN and is
  NaN when nothing is left; a comparison with NaN is false. On an object column the
  maximum is a string (or the reduction itself fails on mixed strings and NaN), and
  comparing a string with a float raises \<^verbatim>\<open>TypeError\<close>.
\<close>

definition max_lt :: "cell list \<Rightarrow> real \<Rightarrow> error + bool" where
  "max_lt cs bound =
     (if \<exists>c \<in> set cs. is_Str c then Inl TypeError
      else if nums cs = [] then Inr False
      else Inr (Max (set (nums cs)) < bound))"

text \<open>\<^verbatim>\<open>df['co2_emissions'] *= k\<close> on a numeric column.\<close>

definition scale_cell :: "real \<Rightarrow> cell \<Rightarrow> cell" where
  "scale_cell k c = (case c of Num x \<Rightarrow> Num (x * k) | _ \<Rightarrow> c)"

definition scale_rows :: "real \<Rightarrow> row list \<Rightarrow> row list" where
  "scale_rows k rs = map (\<lambda>r. r\<lparr>co2_emissions := scale_cell k (co2_emissions r)\<rparr>) rs"

definition standardize_format :: "frame \<Rightarrow> error + frame" where
  "standardize_format df0 =
     (let df = df0\<lparr>columns := rename (columns df0)\<rparr> in
      if ''co2_emissions'' \<in> set (columns df) then
        (case max_lt (map co2_emissions (rows df)) 1000 of
           Inl e \<Rightarrow> Inl e
         | Inr True \<Rightarrow> Inr (df\<lparr>rows := scale_rows 1000000 (rows df)\<rparr>)
         | Inr False \<Rightarrow>
             (case max_lt (map co2_emissions (rows df)) 1000000 of
                Inl e \<Rightarrow> Inl e
              | Inr True \<Rightarrow> Inr (df\<lparr>rows := scale_rows 1000 (rows df)\<rparr>)
              | Inr False \<Rightarrow> Inr df))
      else Inr df)"

section \<open>Aggregator and smoother: \<^verbatim>\<open>_clean_combined_data\<close>\<close>

text \<open>
  \<^verbatim>\<open>pd.concat(dfs, ignore_index=True)\<close>: the labels of all frames, the rows of all frames
  in order; a row of a frame that lacks a column has a missing value there.
\<close>

definition blank :: "string list \<Rightarrow> row \<Rightarrow> row" where
  "blank cols r =
     \<lparr>country = (if ''country'' \<in> set cols then country r else None),
      year = (if ''year'' \<in> set cols then year r else None),
      co2_emissions = (if ''co2_emissions'' \<in> set cols then co2_emissions r else NaN),
      co2_per_capita = (if ''co2_per_capita'' \<in> set cols then co2_per_capita r else None),
      country_code = (if ''country_code'' \<in> set cols then country_code r else None),
      source = (if ''source'' \<in> set cols then source r else None),
      co2_ma_5yr = (if ''co2_ma_5yr'' \<in> set cols then co2_ma_5yr r else None)\<rparr>"

definition concat_frames :: "frame list \<Rightarrow> frame" where
  "concat_frames dfs =
     \<lparr>columns = remdups (concat (map columns dfs)),
      rows = concat (map (\<lambda>df. map (blank (columns df)) (rows df)) dfs)\<rparr>"

text \<open>\<^verbatim>\<open>pd.to_numeric(..., errors='coerce')\<close>: what does not parse becomes missing.\<close>

definition to_numeric :: "cell \<Rightarrow> cell" where
  "to_numeric c = (case c of Str _ \<Rightarrow> NaN | _ \<Rightarrow> c)"

definition num_of :: "cell \<Rightarrow> real option" where
  "num_of c = (case c of Num x \<Rightarrow> Some x | _ \<Rightarrow> None)"

definition cell_of :: "real option \<Rightarrow> cell" where
  "cell_of v = (case v of Some x \<Rightarrow> Num x | None \<Rightarrow> NaN)"

text \<open>The mean of a group or window, NaN skipped; NaN when nothing is left.\<close>

definition nanmean :: "real option list \<Rightarrow> real option" where
  "nanmean vs =
     (let xs = List.map_filter id vs
      in if xs = [] then None else Some (sum_list xs / real (length xs)))"

text \<open>
  \<^verbatim>\<open>df.groupby(['country', 'year', 'country_code'], as_index=False).agg(...)\<close> with the
  defaults \<^verbatim>\<open>sort=True, dropna=True\<close>: a row with a missing value in a key column
  belongs to no group; there is one result row per distinct key, in ascending key order.
\<close>

type_synonym gkey = "string \<times> int \<times> string"

definition group_key :: "row \<Rightarrow> gkey option" where
  "group_key r =
     (case (country r, year r, country_code r) of
        (Some c, Some y, Some k) \<Rightarrow> Some (c, y, k)
      | _ \<Rightarrow> None)"

definition group_rows :: "row list \<Rightarrow> gkey \<Rightarrow> row list" where
  "group_rows rs k = filter (\<lambda>r. group_key r = Some k) rs"

definition agg_mean :: "row list \<Rightarrow> gkey \<Rightarrow> row" where
  "agg_mean rs k =
     \<lparr>country = Some (fst k),
      year = Some (fst (snd k)),
      co2_emissions = cell_of (nanmean (map (\<lambda>r. num_of (co2_emissions r)) (group_rows rs k))),
      co2_per_capita = nanmean (map co2_per_capita (group_rows rs k)),
      country_code = Some (snd (snd k)),
      source = None,
      co2_ma_5yr = None\<rparr>"

definition groupby_mean :: "row list \<Rightarrow> row list" where
  "groupby_mean rs = map (agg_mean rs) (sort (remdups (List.map_filter group_key rs)))"

text \<open>
  \<^verbatim>\<open>x.rolling(5, min_periods=3).mean()\<close>: at each position the window is the last
  \<open>n\<close> entries up to and including it (fewer at the start); the value is the mean of the
  window's non-missing entries when there are at least \<open>min_periods\<close> of them.
\<close>

definition window :: "nat \<Rightarrow> 'a list \<Rightarrow> nat \<Rightarrow> 'a list" where
  "window n xs i = drop (Suc i - n) (take (Suc i) xs)"

definition window_mean :: "nat \<Rightarrow> real option list \<Rightarrow> real option" where
  "window_mean min_periods w =
     (if length (List.map_filter id w) < min_periods then None else nanmean w)"

definition rolling_mean :: "nat \<Rightarrow> nat \<Rightarrow> real option list \<Rightarrow> real option list" where
  "rolling_mean n min_periods xs =
     map (\<lambda>i. window_mean min_periods (window n xs i)) [0..<length xs]"

text \<open>
  \<^verbatim>\<open>grouped.groupby('country')['co2_emissions'].transform(f)\<close>: \<open>f\<close> is applied to the
  series of each country (its rows in frame order) and each result goes back to the row
  it came from.
\<close>

definition country_series :: "row list \<Rightarrow> string option \<Rightarrow> real option list" where
  "country_series rs c = map (\<lambda>r. num_of (co2_emissions r)) (filter (\<lambda>r. country r = c) rs)"

definition position_in_country :: "row list \<Rightarrow> nat \<Rightarrow> nat" where
  "position_in_country rs i = length (filter (\<lambda>r. country r = country (rs ! i)) (take i rs))"

definition transform_ma :: "row list \<Rightarrow> row list" where
  "transform_ma rs =
     map (\<lambda>i. (rs ! i)\<lparr>co2_ma_5yr :=
                 rolling_mean 5 3 (country_series rs (country (rs ! i)))
                   ! position_in_country rs i\<rparr>)
       [0..<length rs]"

definition year_ge :: "int \<Rightarrow> row \<Rightarrow> bool" where
  "year_ge y0 r = (case year r of Some y \<Rightarrow> y0 \<le> y | None \<Rightarrow> False)"

text \<open>Selecting a column that the frame lacks raises \<^verbatim>\<open>KeyError\<close>.\<close>

definition first_missing :: "string list \<Rightarrow> string list \<Rightarrow> string option" where
  "first_missing needed cols = find (\<lambda>c. c \<notin> set cols) needed"

definition clean_rows :: "row list \<Rightarrow> row list" where
  "clean_rows rs =
     transform_ma
       (sort_key (\<lambda>r. (country r, year r))
          (groupby_mean
             (filter (year_ge 1970)
                (filter (\<lambda>r. country r \<noteq> None)
                   (map (\<lambda>r. r\<lparr>co2_emissions := to_numeric (co2_emissions r)\<rparr>) rs)))))"

definition clean_combined_data :: "frame \<Rightarrow> error + frame" where
  "clean_combined_data df =
     (case first_missing
             [''co2_emissions'', ''country'', ''year'', ''country_code'', ''co2_per_capita'']
             (columns df) of
        Some c \<Rightarrow> Inl (KeyError c)
      | None \<Rightarrow>
          Inr \<lparr>columns = [''country'', ''year'', ''country_code'', ''co2_emissions'',
                          ''co2_per_capita'', ''co2_ma_5yr''],
               rows = clean_rows (rows df)\<rparr>)"

section \<open>Hotspot detector: \<^verbatim>\<open>identify_hotspots\<close>\<close>

record hotspot =
  h_country :: "string option"
  growth_rate :: real
  p_value :: real
  recent_emissions :: real

text \<open>
  The moments \<^verbatim>\<open>scipy.stats.linregress\<close> and least squares work from
  (\<^verbatim>\<open>np.cov(x, y, bias=1)\<close>).
\<close>

definition mean :: "real list \<Rightarrow> real" where
  "mean xs = sum_list xs / real (length xs)"

definition ssxm :: "(real \<times> real) list \<Rightarrow> real" where
  "ssxm ps = mean (map (\<lambda>(x, y). (x - mean (map fst ps)) ^ 2) ps)"

definition ssym :: "(real \<times> real) list \<Rightarrow> real" where
  "ssym ps = mean (map (\<lambda>(x, y). (y - mean (map snd ps)) ^ 2) ps)"

definition ssxym :: "(real \<times> real) list \<Rightarrow> real" where
  "ssxym ps = mean (map (\<lambda>(x, y). (x - mean (map fst ps)) * (y - mean (map snd ps))) ps)"

text \<open>
  \<^verbatim>\<open>LinearRegression().fit(X, y).coef_[0]\<close>: \<^verbatim>\<open>fit\<close> validates its input and raises
  \<^verbatim>\<open>ValueError\<close> when \<open>y\<close> contains NaN; otherwise the coefficient is the least-squares
  slope (the minimum-norm solution, 0, when all \<open>x\<close> coincide).
\<close>

definition fit_slope :: "(real \<times> real option) list \<Rightarrow> error + real" where
  "fit_slope ps =
     (if \<exists>p \<in> set ps. snd p = None then Inl ValueError
      else let qs = map (\<lambda>(x, y). (x, the y)) ps
           in Inr (if ssxm qs = 0 then 0 else ssxym qs / ssxm qs))"

text \<open>
  \<^verbatim>\<open>stats.linregress(x, y)\<close> returns the 5-tuple
  \<^verbatim>\<open>(slope, intercept, rvalue, pvalue, stderr)\<close>; it raises \<^verbatim>\<open>ValueError\<close> when all
  \<open>x\<close> are identical. The source takes the slice \<^verbatim>\<open>[3:5]\<close>, that is
  \<^verbatim>\<open>(pvalue, stderr)\<close>, and unpacks it as \<^verbatim>\<open>_, p_value\<close>: the name \<^verbatim>\<open>p_value\<close> is bound to
  element 4, the standard error of the slope,
  \<^verbatim>\<open>sqrt((1 - r**2) * ssym / ssxm / (n - 2))\<close>; element 3 is discarded.
\<close>

definition rsquared :: "(real \<times> real) list \<Rightarrow> real" where
  "rsquared ps =
     (if ssxm ps = 0 \<or> ssym ps = 0 then 0 else (ssxym ps) ^ 2 / (ssxm ps * ssym ps))"

definition slope_stderr :: "(real \<times> real) list \<Rightarrow> real" where
  "slope_stderr ps =
     sqrt ((1 - rsquared ps) * ssym ps / ssxm ps / (real (length ps) - 2))"

definition linregress_4 :: "(real \<times> real) list \<Rightarrow> error + real" where
  "linregress_4 ps =
     (if 1 < length ps \<and> Max (set (map fst ps)) = Min (set (map fst ps)) then Inl ValueError
      else Inr (slope_stderr ps))"

text \<open>The body of the loop for one country: \<open>None\<close> is \<^verbatim>\<open>continue\<close> or no append.\<close>

definition country_pairs :: "row list \<Rightarrow> (real \<times> real option) list" where
  "country_pairs cd = map (\<lambda>r. (real_of_int (the (year r)), co2_ma_5yr r)) cd"

definition examine :: "string option \<Rightarrow> row list \<Rightarrow> error + hotspot option" where
  "examine c country_data =
     (if length country_data < 5 then Inr None
      else
        (case fit_slope (country_pairs country_data) of
           Inl e \<Rightarrow> Inl e
         | Inr slope \<Rightarrow>
             (case linregress_4 (map (\<lambda>(x, y). (x, the y)) (country_pairs country_data)) of
                Inl e \<Rightarrow> Inl e
              | Inr p \<Rightarrow>
                  if 0 < slope \<and> p < 5 / 100
                  then Inr (Some \<lparr>h_country = c, growth_rate = slope, p_value = p,
                                  recent_emissions = the (co2_ma_5yr (last country_data))\<rparr>)
                  else Inr None)))"

fun scan_countries :: "row list \<Rightarrow> string option list \<Rightarrow> error + hotspot list" where
  "scan_countries recent [] = Inr []"
| "scan_countries recent (c # cs) =
     (case examine c (filter (\<lambda>r. country r = c) recent) of
        Inl e \<Rightarrow> Inl e
      | Inr h \<Rightarrow>
          (case scan_countries recent cs of
             Inl e \<Rightarrow> Inl e
           | Inr hs \<Rightarrow> Inr ((case h of None \<Rightarrow> [] | Some x \<Rightarrow> [x]) @ hs)))"

text \<open>\<^verbatim>\<open>Series.unique()\<close>: the distinct values in order of first appearance.\<close>

definition unique :: "'a list \<Rightarrow> 'a list" where
  "unique xs = rev (remdups (rev xs))"

text \<open>
  \<^verbatim>\<open>pd.DataFrame(hotspots).sort_values('growth_rate', ascending=False).head(3)\<close>. A frame
  built from the empty list has no columns, so sorting it by \<^verbatim>\<open>growth_rate\<close> raises
  \<^verbatim>\<open>KeyError\<close>. The call leaves \<^verbatim>\<open>kind\<close> at its default \<^verbatim>\<open>'quicksort'\<close>, which pandas
  does not document as stable: the sorting routine is the parameter \<open>sorter\<close>, of which
  \<open>sorts_descending\<close> states what the library promises.
\<close>

definition sorts_descending :: "(hotspot list \<Rightarrow> hotspot list) \<Rightarrow> bool" where
  "sorts_descending sorter =
     (\<forall>hs. mset (sorter hs) = mset hs \<and> sorted (rev (map growth_rate (sorter hs))))"

definition stable_sort_desc :: "hotspot list \<Rightarrow> hotspot list" where
  "stable_sort_desc hs = rev (sort_key growth_rate (rev hs))"

definition top_hotspots :: "(hotspot list \<Rightarrow> hotspot list) \<Rightarrow> hotspot list \<Rightarrow> error + hotspot list" where
  "top_hotspots sorter hs =
     (if hs = [] then Inl (KeyError ''growth_rate'') else Inr (take 3 (sorter hs)))"

definition detect :: "(hotspot list \<Rightarrow> hotspot list) \<Rightarrow> int \<Rightarrow> frame \<Rightarrow> error + hotspot list" where
  "detect sorter start_year combined =
     (let recent = filter (year_ge start_year) (rows combined)
      in case scan_countries recent (unique (map country recent)) of
           Inl e \<Rightarrow> Inl e
         | Inr hs \<Rightarrow> top_hotspots sorter hs)"

section \<open>The analyzer and its stages\<close>

text \<open>
  The state of a run: the files \<^verbatim>\<open>read_csv\<close> can open, the table \<^verbatim>\<open>global_emissions\<close> of
  the database, the two instance fields of \<^verbatim>\<open>CO2EmissionsAnalyzer\<close>, the flat export
  (each row with its \<^verbatim>\<open>is_hotspot\<close> flag), the chart files written, and the progress
  lines that \<^verbatim>\<open>main\<close> prints. Writing to the database, to the export file and to the
  chart files is taken to succeed.
\<close>

record state =
  files :: "string \<Rightarrow> frame option"
  db :: "frame option"
  combined_data :: "frame option"
  hotspots :: "hotspot list option"
  tableau_export :: "(row \<times> bool) list option"
  charts :: "string list"
  stdout :: "string list"

definition DATA_SOURCES :: "(string \<times> string) list" where
  "DATA_SOURCES =
     [(''edgar'', ''data/edgar_emissions.csv''),
      (''global_carbon'', ''data/global_carbon_atlas.csv''),
      (''bp_stats'', ''data/bp_statistical_review.csv'')]"

text \<open>\<^verbatim>\<open>df['source'] = name\<close>\<close>

definition set_source :: "string \<Rightarrow> frame \<Rightarrow> frame" where
  "set_source name df =
     \<lparr>columns = (if ''source'' \<in> set (columns df) then columns df
                 else columns df @ [''source'']),
      rows = map (\<lambda>r. r\<lparr>source := Some name\<rparr>) (rows df)\<rparr>"

fun read_sources :: "(string \<Rightarrow> frame option) \<Rightarrow> (string \<times> string) list \<Rightarrow> error + frame list" where
  "read_sources fs [] = Inr []"
| "read_sources fs ((name, path) # rest) =
     (case fs path of
        None \<Rightarrow> Inl (FileNotFoundError path)
      | Some df \<Rightarrow>
          (case standardize_format (set_source name df) of
             Inl e \<Rightarrow> Inl e
           | Inr d \<Rightarrow>
               (case read_sources fs rest of
                  Inl e \<Rightarrow> Inl e
                | Inr ds \<Rightarrow> Inr (d # ds))))"

definition load_frames :: "(string \<Rightarrow> frame option) \<Rightarrow> error + frame" where
  "load_frames fs =
     (case read_sources fs DATA_SOURCES of
        Inl e \<Rightarrow> Inl e
      | Inr dfs \<Rightarrow> clean_combined_data (concat_frames dfs))"

definition load_and_clean_data :: "state \<Rightarrow> bool \<times> state" where
  "load_and_clean_data s =
     (case load_frames (files s) of
        Inl e \<Rightarrow> (False, s)
      | Inr combined \<Rightarrow> (True, s\<lparr>db := Some combined, combined_data := Some combined\<rparr>))"

definition identify_hotspots ::
  "(hotspot list \<Rightarrow> hotspot list) \<Rightarrow> int \<Rightarrow> state \<Rightarrow> bool \<times> state" where
  "identify_hotspots sorter start_year s =
     (case combined_data s of
        None \<Rightarrow> (False, s)
      | Some combined \<Rightarrow>
          (case detect sorter start_year combined of
             Inl e \<Rightarrow> (False, s)
           | Inr hs \<Rightarrow> (True, s\<lparr>hotspots := Some hs\<rparr>)))"

definition is_hotspot :: "hotspot list option \<Rightarrow> row \<Rightarrow> bool" where
  "is_hotspot hsp r =
     (case hsp of None \<Rightarrow> False | Some hs \<Rightarrow> country r \<in> set (map h_country hs))"

definition prepare_tableau_data :: "state \<Rightarrow> bool \<times> state" where
  "prepare_tableau_data s =
     (case combined_data s of
        None \<Rightarrow> (False, s)
      | Some combined \<Rightarrow>
          (True, s\<lparr>tableau_export :=
                     Some (map (\<lambda>r. (r, is_hotspot (hotspots s) r)) (rows combined))\<rparr>))"

definition generate_visualizations :: "state \<Rightarrow> bool \<times> state" where
  "generate_visualizations s =
     (case combined_data s of
        None \<Rightarrow> (False, s)
      | Some combined \<Rightarrow>
          (True, s\<lparr>charts := charts s
                     @ (if hotspots s \<noteq> None then [''visualization/hotspots_trend.png''] else [])
                     @ [''visualization/global_emissions_map.html'']\<rparr>))"

definition say :: "string \<Rightarrow> state \<Rightarrow> state" where
  "say msg s = s\<lparr>stdout := stdout s @ [msg]\<rparr>"

definition main :: "(hotspot list \<Rightarrow> hotspot list) \<Rightarrow> state \<Rightarrow> state" where
  "main sorter s0 =
     (let (ok1, s1) = load_and_clean_data (say ''Loading and cleaning data...'' s0) in
      if \<not> ok1 then s1
      else
        let (ok2, s2) = identify_hotspots sorter 2015 (say ''Identifying emission hotspots...'' s1) in
        if \<not> ok2 then s2
        else
          let (ok3, s3) = prepare_tableau_data (say ''Preparing Tableau export...'' s2);
              (ok4, s4) = generate_visualizations (say ''Generating visualizations...'' s3)
          in say ''Process completed successfully!'' s4)"

section \<open>Example data\<close>

text \<open>
  \<^verbatim>\<open>CO2EmissionsAnalyzer.__init__\<close>: nothing loaded, no hotspots; \<open>fs\<close> is what the three
  paths of \<^verbatim>\<open>DATA_SOURCES\<close> hold.
\<close>

definition init_state :: "(string \<Rightarrow> frame option) \<Rightarrow> state" where
  "init_state fs =
     \<lparr>files = fs, db = None, combined_data = None, hotspots = None,
      tableau_export = None, charts = [], stdout = []\<rparr>"

definition files_of :: "frame \<Rightarrow> frame \<Rightarrow> frame \<Rightarrow> string \<Rightarrow> frame option" where
  "files_of e g b =
     [''data/edgar_emissions.csv'' \<mapsto> e,
      ''data/global_carbon_atlas.csv'' \<mapsto> g,
      ''data/bp_statistical_review.csv'' \<mapsto> b]"

text \<open>A row of a source file: country, year, \<^verbatim>\<open>co2\<close> field and ISO code.\<close>

definition obs :: "string \<Rightarrow> int \<Rightarrow> cell \<Rightarrow> string option \<Rightarrow> row" where
  "obs c y v k =
     \<lparr>country = Some c, year = Some y, co2_emissions = v, co2_per_capita = None,
      country_code = k, source = None, co2_ma_5yr = None\<rparr>"

definition raw_columns :: "string list" where
  "raw_columns = [''country'', ''year'', ''co2'', ''co2_per_capita'', ''iso_code'']"

definition numeric_column :: "cell list \<Rightarrow> bool" where
  "numeric_column cs = list_all (\<lambda>c. \<not> is_Str c) cs"

definition one_row_file :: "cell \<Rightarrow> frame" where
  "one_row_file v = \<lparr>columns = raw_columns, rows = [obs ''A'' 2000 v (Some ''AAA'')]\<rparr>"

definition no_per_capita_file :: frame where
  "no_per_capita_file =
     \<lparr>columns = [''country'', ''year'', ''co2'', ''iso_code''],
      rows = [obs ''A'' 2000 (Num 5) (Some ''AAA'')]\<rparr>"

definition tagged :: "string \<Rightarrow> real \<Rightarrow> frame" where
  "tagged name v =
     \<lparr>columns = [''country'', ''year'', ''co2_emissions'', ''country_code'', ''source''],
      rows = [(obs ''A'' 2000 (Num v) (Some ''AAA''))\<lparr>source := Some name\<rparr>]\<rparr>"

text \<open>An analyzer whose \<^verbatim>\<open>combined_data\<close> holds the given rows.\<close>

definition loaded :: "row list \<Rightarrow> state" where
  "loaded rs =
     (init_state Map.empty)
       \<lparr>combined_data :=
          Some \<lparr>columns = [''country'', ''year'', ''country_code'', ''co2_emissions'',
                           ''co2_per_capita'', ''co2_ma_5yr''],
                rows = rs\<rparr>\<rparr>"

section \<open>Loading: missing columns\<close>

text \<open>
  C10. When the concatenated standardized table lacks the \<^verbatim>\<open>co2_emissions\<close> column or the
  \<^verbatim>\<open>co2_per_capita\<close> column, \<^verbatim>\<open>load_and_clean_data\<close> returns \<open>False\<close> and the state,
  database included, is what it was.
\<close>

theorem C10_missing_column_fails:
  assumes "read_sources (files s) DATA_SOURCES = Inr dfs"
    and "''co2_emissions'' \<notin> set (columns (concat_frames dfs))
         \<or> ''co2_per_capita'' \<notin> set (columns (concat_frames dfs))"
  shows "load_and_clean_data s = (False, s)"
proof -
  have "first_missing [''co2_emissions'', ''country'', ''year'', ''country_code'', ''co2_per_capita'']
          (columns (concat_frames dfs)) \<noteq> None"
    using assms(2) by (auto simp: first_missing_def find_None_iff)
  then obtain e where "clean_combined_data (concat_frames dfs) = Inl e"
    by (auto simp: clean_combined_data_def)
  with assms(1) show ?thesis
    by (simp add: load_and_clean_data_def load_frames_def)
qed

theorem C10_witness:
  "load_and_clean_data
     (init_state (files_of no_per_capita_file no_per_capita_file no_per_capita_file))
   = (False, init_state (files_of no_per_capita_file no_per_capita_file no_per_capita_file))"
proof -
  let ?dfs = "map (\<lambda>n. tagged n 5000000) [''edgar'', ''global_carbon'', ''bp_stats'']"
  let ?s = "init_state (files_of no_per_capita_file no_per_capita_file no_per_capita_file)"
  have a: "read_sources (files_of no_per_capita_file no_per_capita_file no_per_capita_file)
             DATA_SOURCES = Inr ?dfs"
    by code_simp
  have b: "''co2_per_capita'' \<notin> set (columns (concat_frames ?dfs))"
    by code_simp
  have c: "files ?s = files_of no_per_capita_file no_per_capita_file no_per_capita_file"
    by (simp add: init_state_def)
  show ?thesis
    using C10_missing_column_fails [of ?s ?dfs] a b c by simp
qed

section \<open>Hotspot detection: no candidate\<close>

lemma scan_none:
  "list_all (\<lambda>c. \<forall>h. examine c (filter (\<lambda>r. country r = c) recent) \<noteq> Inr (Some h)) cs \<Longrightarrow>
   scan_countries recent cs = Inr [] \<or> (\<exists>e. scan_countries recent cs = Inl e)"
proof (induction cs)
  case Nil
  then show ?case by simp
next
  case (Cons c cs)
  then have ih: "scan_countries recent cs = Inr [] \<or> (\<exists>e. scan_countries recent cs = Inl e)"
    and nh: "\<forall>h. examine c (filter (\<lambda>r. country r = c) recent) \<noteq> Inr (Some h)"
    by simp_all
  show ?case
  proof (cases "examine c (filter (\<lambda>r. country r = c) recent)")
    case (Inl e)
    then show ?thesis by simp
  next
    case (Inr h)
    with nh have "h = None" by (cases h) auto
    with Inr ih show ?thesis by auto
  qed
qed

text \<open>
  C9. When no country of the filtered subset passes the inclusion test (none is appended
  to the candidate list), \<^verbatim>\<open>identify_hotspots\<close> returns \<open>False\<close>: sorting the empty
  candidate table raises, and the handler catches it.
\<close>

theorem C9_empty_candidates_fail:
  assumes "combined_data s = Some combined"
    and "list_all (\<lambda>c. \<forall>h. examine c (filter (\<lambda>r. country r = c)
                                 (filter (year_ge start_year) (rows combined))) \<noteq> Inr (Some h))
           (unique (map country (filter (year_ge start_year) (rows combined))))"
  shows "identify_hotspots sorter start_year s = (False, s)"
proof -
  from scan_none [OF assms(2)]
  have "detect sorter start_year combined = Inl (KeyError ''growth_rate'')
        \<or> (\<exists>e. detect sorter start_year combined = Inl e)"
    by (auto simp: detect_def top_hotspots_def)
  then obtain e where "detect sorter start_year combined = Inl e" by auto
  with assms(1) show ?thesis by (simp add: identify_hotspots_def)
qed

theorem C9_witness:
  "identify_hotspots stable_sort_desc 2015 (loaded [obs ''A'' 2016 (Num 5) (Some ''AAA'')])
     = (False, loaded [obs ''A'' 2016 (Num 5) (Some ''AAA'')])"
  using C9_empty_candidates_fail
          [of "loaded [obs ''A'' 2016 (Num 5) (Some ''AAA'')]" _ 2015 stable_sort_desc]
  by (simp add: loaded_def init_state_def obs_def year_ge_def unique_def examine_def)

end
